theory Spec2Isabelle
  imports Complex_Main
begin

section \<open>Data model\<close>

text \<open>
  The backend keeps its entities in Sequelize models over a relational store.  Each model
  is a record with the columns the scoring and submission code reads or writes; a table
  is the list of its rows in insertion order.  All models are declared
  \<^verbatim>\<open>paranoid: true\<close>: a row is soft-deleted by setting \<^verbatim>\<open>deletedAt\<close>, and every
  finder skips such rows.  The names a module imports stand for the models of those names.

  A \<^verbatim>\<open>Date\<close> is its number of milliseconds since the epoch.
\<close>

type_synonym uuid = string
type_synonym time = int

text \<open>
  A JavaScript number: \<^verbatim>\<open>NaN\<close>, the two infinities, or a finite double, which is a real
  number here (rounding and overflow of doubles are outside the model).  A value that may
  also be \<^verbatim>\<open>null\<close> or \<^verbatim>\<open>undefined\<close> is a \<open>number option\<close>.
\<close>

datatype number = NaN | PosInf | NegInf | Num real

fun add_num :: "number \<Rightarrow> number \<Rightarrow> number" where
  "add_num (Num x) (Num y) = Num (x + y)"
| "add_num NaN b = NaN"
| "add_num a NaN = NaN"
| "add_num PosInf NegInf = NaN"
| "add_num NegInf PosInf = NaN"
| "add_num PosInf b = PosInf"
| "add_num a PosInf = PosInf"
| "add_num NegInf b = NegInf"
| "add_num a NegInf = NegInf"

text \<open>Division by the length of a non-empty array.\<close>

fun div_num :: "number \<Rightarrow> nat \<Rightarrow> number" where
  "div_num (Num x) n = Num (x / real n)"
| "div_num NaN n = NaN"
| "div_num PosInf n = PosInf"
| "div_num NegInf n = NegInf"

text \<open>\<^verbatim>\<open>!x\<close> on a number that may be missing: null, undefined, \<^verbatim>\<open>NaN\<close> and 0 are falsy.\<close>

fun falsy :: "number option \<Rightarrow> bool" where
  "falsy None = True"
| "falsy (Some NaN) = True"
| "falsy (Some (Num x)) = (x = 0)"
| "falsy (Some PosInf) = False"
| "falsy (Some NegInf) = False"

text \<open>A JSON value, as a \<^verbatim>\<open>JSONB\<close> column holds it.\<close>

datatype json =
    JNull
  | JBool bool
  | JNumber real
  | JString string
  | JArray "json list"
  | JObject "(string \<times> json) list"

text \<open>
  An entry of \<^verbatim>\<open>judgingCriteria\<close>; \<^verbatim>\<open>name\<close> may be absent from the JSON object.
\<close>

record criterion =
  crit_id :: string
  crit_name :: "string option"
  maxScore :: real

text \<open>\<^verbatim>\<open>models/event.model.js\<close>, with the foreign key \<^verbatim>\<open>organizerId\<close> of its association.\<close>

record event =
  event_id :: uuid
  organizerId :: uuid
  startDate :: time
  endDate :: time
  submissionDeadline :: "time option"
  judgingCriteria :: "criterion list"
  event_deletedAt :: "time option"

datatype submission_status = Draft | Submitted | UnderReview | AcceptedS | RejectedS

record submission =
  sub_id :: uuid
  sub_eventId :: uuid
  sub_teamId :: uuid
  submittedById :: uuid
  title :: string
  description :: string
  githubUrl :: "string option"
  videoUrl :: "string option"
  fileUrl :: "string option"
  fileType :: "string option"
  fileSize :: "nat option"
  submissionNote :: "string option"
  isPublic :: bool
  sub_status :: submission_status
  averageScore :: "number option"
  totalEvaluations :: nat
  sub_deletedAt :: "time option"

datatype evaluation_status = EDraft | ESubmitted

text \<open>
  \<^verbatim>\<open>criteriaScores\<close> is a JSON object: its own properties, one entry per key, in key order.
\<close>

record evaluation =
  eval_id :: uuid
  submissionId :: uuid
  judgeId :: uuid
  round :: int
  score :: "number option"
  criteriaScores :: "(string \<times> json) list"
  feedback :: "string option"
  eval_status :: evaluation_status
  eval_deletedAt :: "time option"

record db =
  events :: "event list"
  submissions :: "submission list"
  evaluations :: "evaluation list"

text \<open>
  \<^verbatim>\<open>req.user\<close> is the instance of the User model that the \<^verbatim>\<open>authenticate\<close> middleware
  loads.  The model declares the column \<^verbatim>\<open>role\<close>; it has no attribute \<^verbatim>\<open>roles\<close>.
\<close>

record user =
  user_id :: uuid
  role :: string

text \<open>
  What a handler takes from outside the store: the clock, the UUID the store draws for a
  new row, and the URL validator of the ORM.
\<close>

record env =
  now :: time
  freshId :: uuid
  isUrl :: "string \<Rightarrow> bool"

text \<open>A handler answers with a status code and either a message or data.\<close>

datatype http_error = HttpError nat string

section \<open>Event model\<close>

text \<open>\<^verbatim>\<open>Event.prototype.isSubmissionOpen\<close>: a null deadline closes the window.\<close>

definition isSubmissionOpen :: "time \<Rightarrow> event \<Rightarrow> bool" where
  "isSubmissionOpen t e =
     (case submissionDeadline e of
        None \<Rightarrow> False
      | Some d \<Rightarrow> t \<le> d \<and> t \<le> endDate e)"

definition isEventOngoing :: "time \<Rightarrow> event \<Rightarrow> bool" where
  "isEventOngoing t e = (startDate e \<le> t \<and> t \<le> endDate e)"

definition Event_findByPk :: "db \<Rightarrow> uuid \<Rightarrow> event option" where
  "Event_findByPk d i = find (\<lambda>e. event_id e = i \<and> event_deletedAt e = None) (events d)"

section \<open>Submission model\<close>








section \<open>Submission model: score aggregation\<close>

definition Submission_findByPk :: "db \<Rightarrow> uuid \<Rightarrow> submission option" where
  "Submission_findByPk d i = find (\<lambda>s. sub_id s = i \<and> sub_deletedAt s = None) (submissions d)"

text \<open>
  \<^verbatim>\<open>this.getEvaluations()\<close>: the evaluations of the submission that are not soft-deleted,
  of every round, judge and status.
\<close>

definition getEvaluations :: "db \<Rightarrow> submission \<Rightarrow> evaluation list" where
  "getEvaluations d s =
     filter (\<lambda>e. submissionId e = sub_id s \<and> eval_deletedAt e = None) (evaluations d)"

text \<open>\<^verbatim>\<open>evalItem.score || 0\<close>: a falsy score counts as 0.\<close>

definition score_or_zero :: "number option \<Rightarrow> number" where
  "score_or_zero x = (case x of None \<Rightarrow> Num 0 | Some n \<Rightarrow> if falsy (Some n) then Num 0 else n)"

text \<open>
  \<^verbatim>\<open>this.save()\<close> after \<open>calculateScores\<close> writes the two changed columns to the row of
  this id.
\<close>

definition save_scores :: "db \<Rightarrow> submission \<Rightarrow> db" where
  "save_scores d s =
     d\<lparr>submissions :=
         map (\<lambda>r. if sub_id r = sub_id s
                   then r\<lparr>averageScore := averageScore s, totalEvaluations := totalEvaluations s\<rparr>
                   else r)
           (submissions d)\<rparr>"

definition calculateScores :: "db \<Rightarrow> submission \<Rightarrow> db \<times> submission" where
  "calculateScores d s =
     (let evals = getEvaluations d s in
      if length evals = 0 then
        (let s' = s\<lparr>averageScore := None, totalEvaluations := 0\<rparr> in (save_scores d s', s'))
      else
        (let totalScore =
               foldl (\<lambda>sum evalItem. add_num sum (score_or_zero (score evalItem))) (Num 0) evals;
             s' = s\<lparr>averageScore := Some (div_num totalScore (length evals)),
                    totalEvaluations := length evals\<rparr>
         in (save_scores d s', s')))"

section \<open>Evaluation model\<close>

subsection \<open>parseFloat\<close>

text \<open>
  \<^verbatim>\<open>parseFloat\<close> turns its argument into a string and reads the longest prefix that is
  a decimal literal, after leading white space: a sign, then \<^verbatim>\<open>Infinity\<close> or digits with
  an optional fraction and exponent.
\<close>

definition is_space :: "char \<Rightarrow> bool" where
  "is_space c = ((of_char c :: nat) \<in> {32, 9, 10, 11, 12, 13})"

definition is_digit :: "char \<Rightarrow> bool" where
  "is_digit c = (48 \<le> (of_char c :: nat) \<and> (of_char c :: nat) \<le> 57)"

definition digit_val :: "char \<Rightarrow> nat" where
  "digit_val c = of_char c - 48"

definition digits_val :: "string \<Rightarrow> nat" where
  "digits_val ds = foldl (\<lambda>a c. 10 * a + digit_val c) 0 ds"

definition split_sign :: "string \<Rightarrow> bool \<times> string" where
  "split_sign s =
     (case s of
        [] \<Rightarrow> (False, [])
      | c # r \<Rightarrow> if c = CHR ''-'' then (True, r)
                 else if c = CHR ''+'' then (False, r) else (False, s))"

definition parse_exponent :: "string \<Rightarrow> int" where
  "parse_exponent s =
     (case s of
        [] \<Rightarrow> 0
      | c # r \<Rightarrow>
          if c = CHR ''e'' \<or> c = CHR ''E'' then
            (let sr = split_sign r; ds = takeWhile is_digit (snd sr) in
             if ds = [] then 0
             else if fst sr then - int (digits_val ds) else int (digits_val ds))
          else 0)"

definition scale10 :: "real \<Rightarrow> int \<Rightarrow> real" where
  "scale10 m e = (if 0 \<le> e then m * 10 ^ nat e else m / 10 ^ nat (- e))"

definition parseFloat_string :: "string \<Rightarrow> number" where
  "parseFloat_string s =
     (let sr = split_sign (dropWhile is_space s);
          u = snd sr;
          ip = takeWhile is_digit u;
          r1 = dropWhile is_digit u;
          fr = (case r1 of
                  [] \<Rightarrow> ([], [])
                | c # r \<Rightarrow> if c = CHR ''.'' then (takeWhile is_digit r, dropWhile is_digit r)
                           else ([], r1));
          fp = fst fr;
          m = real (digits_val ip) + real (digits_val fp) / 10 ^ length fp;
          v = scale10 m (parse_exponent (snd fr))
      in if take 8 u = ''Infinity'' then (if fst sr then NegInf else PosInf)
         else if ip = [] \<and> fp = [] then NaN
         else Num (if fst sr then - v else v))"

text \<open>
  The string of a number parses back to the number; \<^verbatim>\<open>null\<close>, a boolean and an object
  give \<^verbatim>\<open>NaN\<close>; the string of an array is that of its elements joined by commas, so an
  array parses as its first element does.
\<close>

fun parseFloat :: "json \<Rightarrow> number" where
  "parseFloat (JNumber r) = Num r"
| "parseFloat (JString s) = parseFloat_string s"
| "parseFloat (JBool b) = NaN"
| "parseFloat JNull = NaN"
| "parseFloat (JObject kvs) = NaN"
| "parseFloat (JArray []) = NaN"
| "parseFloat (JArray (x # xs)) = parseFloat x"

subsection \<open>Errors\<close>

text \<open>
  What \<open>submit\<close> throws: a plain \<^verbatim>\<open>Error\<close> with its message, a \<^verbatim>\<open>TypeError\<close> on
  reading a property of \<^verbatim>\<open>null\<close>, and the two errors of the ORM's \<^verbatim>\<open>save\<close>, its
  \<^verbatim>\<open>ValidationError\<close> and its \<^verbatim>\<open>UniqueConstraintError\<close>.
\<close>

datatype js_error = Error string | TypeError | ValidationError | UniqueConstraintError

text \<open>\<^verbatim>\<open>${criterion.name}\<close> inside double quotes; an absent name prints as \<^verbatim>\<open>undefined\<close>.\<close>

definition quoted_name :: "criterion \<Rightarrow> string" where
  "quoted_name c =
     CHR 0x22 # (case crit_name c of None \<Rightarrow> ''undefined'' | Some n \<Rightarrow> n) @ [CHR 0x22]"

definition required_message :: "criterion \<Rightarrow> string" where
  "required_message c = ''Score for criterion '' @ quoted_name c @ '' is required''"

definition invalid_message :: "criterion \<Rightarrow> string" where
  "invalid_message c = ''Invalid score for criterion '' @ quoted_name c"

subsection \<open>Evaluation.prototype.submit\<close>

text \<open>
  The property names every object inherits from \<^verbatim>\<open>Object.prototype\<close>; their values are
  functions, and for \<^verbatim>\<open>__proto__\<close> the prototype object.
\<close>

definition object_prototype_keys :: "string list" where
  "object_prototype_keys =
     [''constructor'', ''__defineGetter__'', ''__defineSetter__'', ''hasOwnProperty'',
      ''__lookupGetter__'', ''__lookupSetter__'', ''isPrototypeOf'', ''propertyIsEnumerable'',
      ''toString'', ''valueOf'', ''__proto__'', ''toLocaleString'']"

text \<open>
  \<^verbatim>\<open>key in object\<close> and \<^verbatim>\<open>object[key]\<close>: an own property with its value, an inherited
  one, or none.
\<close>

datatype property = Own json | Inherited | Missing

definition get_property :: "(string \<times> json) list \<Rightarrow> string \<Rightarrow> property" where
  "get_property obj k =
     (case map_of obj k of
        Some v \<Rightarrow> Own v
      | None \<Rightarrow> if k \<in> set object_prototype_keys then Inherited else Missing)"

text \<open>\<^verbatim>\<open>isNaN(score) || score < 0 || score > criterion.maxScore\<close>.\<close>

fun out_of_range :: "number \<Rightarrow> real \<Rightarrow> bool" where
  "out_of_range NaN m = True"
| "out_of_range PosInf m = True"
| "out_of_range NegInf m = True"
| "out_of_range (Num x) m = (x < 0 \<or> m < x)"

text \<open>
  The loop over the event's criteria, in their order.  \<^verbatim>\<open>parseFloat\<close> of an inherited
  property, a function, is \<^verbatim>\<open>NaN\<close>.
\<close>

fun checkCriteria :: "criterion list \<Rightarrow> (string \<times> json) list \<Rightarrow> js_error + unit" where
  "checkCriteria [] cs = Inr ()"
| "checkCriteria (c # rest) cs =
     (case get_property cs (crit_id c) of
        Missing \<Rightarrow> Inl (Error (required_message c))
      | Inherited \<Rightarrow> Inl (Error (invalid_message c))
      | Own v \<Rightarrow>
          if out_of_range (parseFloat v) (maxScore c) then Inl (Error (invalid_message c))
          else checkCriteria rest cs)"

text \<open>
  \<^verbatim>\<open>Object.values(criteriaScores).reduce((sum, score) => sum + parseFloat(score), 0)\<close>.
\<close>

definition sumCriteriaScores :: "(string \<times> json) list \<Rightarrow> number" where
  "sumCriteriaScores cs = foldl (\<lambda>sum v. add_num sum (parseFloat v)) (Num 0) (map snd cs)"

text \<open>
  The validators of the model.  \<open>score\<close>: \<^verbatim>\<open>allowNull: false\<close> refuses a missing score;
  \<^verbatim>\<open>min: 0\<close> and \<^verbatim>\<open>max: 100\<close> let \<^verbatim>\<open>NaN\<close> pass and compare every other number.
  \<open>round\<close>: \<^verbatim>\<open>min: 1\<close>.
\<close>

fun score_valid :: "number option \<Rightarrow> bool" where
  "score_valid None = False"
| "score_valid (Some NaN) = True"
| "score_valid (Some PosInf) = False"
| "score_valid (Some NegInf) = False"
| "score_valid (Some (Num x)) = (0 \<le> x \<and> x \<le> 100)"

definition Evaluation_validate :: "evaluation \<Rightarrow> bool" where
  "Evaluation_validate e = (score_valid (score e) \<and> 1 \<le> round e)"

text \<open>
  \<^verbatim>\<open>evaluation.changed('score')\<close>: the score of the instance differs from the one of its
  stored row, or the instance is new and has a score.
\<close>

definition score_changed :: "db \<Rightarrow> evaluation \<Rightarrow> bool" where
  "score_changed d e =
     (case find (\<lambda>r. eval_id r = eval_id e) (evaluations d) of
        None \<Rightarrow> score e \<noteq> None
      | Some r \<Rightarrow> score r \<noteq> score e)"

text \<open>The \<^verbatim>\<open>beforeSave\<close> hook recomputes the submission's scores before the row is written.\<close>

definition beforeSave :: "db \<Rightarrow> evaluation \<Rightarrow> db" where
  "beforeSave d e =
     (if score_changed d e \<and> submissionId e \<noteq> [] then
        (case Submission_findByPk d (submissionId e) of
           None \<Rightarrow> d
         | Some s \<Rightarrow> fst (calculateScores d s))
      else d)"

text \<open>The unique index \<^verbatim>\<open>unique_judge_submission_round\<close>.\<close>

definition violates_unique :: "db \<Rightarrow> evaluation \<Rightarrow> bool" where
  "violates_unique d e =
     (\<exists>r \<in> set (evaluations d). eval_id r \<noteq> eval_id e \<and> submissionId r = submissionId e
          \<and> judgeId r = judgeId e \<and> round r = round e)"

definition write_evaluation :: "db \<Rightarrow> evaluation \<Rightarrow> db" where
  "write_evaluation d e =
     (if \<exists>r \<in> set (evaluations d). eval_id r = eval_id e
      then d\<lparr>evaluations := map (\<lambda>r. if eval_id r = eval_id e then e else r) (evaluations d)\<rparr>
      else d\<lparr>evaluations := evaluations d @ [e]\<rparr>)"

text \<open>
  \<^verbatim>\<open>this.save()\<close>: the validators, then the \<^verbatim>\<open>beforeSave\<close> hook, then the write, which
  the unique index may refuse.  An error carries no store: what the hook wrote before a
  refused write is not returned.
\<close>

definition Evaluation_save :: "db \<Rightarrow> evaluation \<Rightarrow> js_error + db \<times> evaluation" where
  "Evaluation_save d e =
     (if \<not> Evaluation_validate e then Inl ValidationError
      else (let d1 = beforeSave d e in
            if violates_unique d1 e then Inl UniqueConstraintError
            else Inr (write_evaluation d1 e, e)))"

definition submit :: "db \<Rightarrow> evaluation \<Rightarrow> js_error + db \<times> evaluation" where
  "submit d e =
     (if eval_status e = ESubmitted then Inl (Error ''Evaluation has already been submitted'')
      else
        (case Submission_findByPk d (submissionId e) of
           None \<Rightarrow> Inl TypeError
         | Some s \<Rightarrow>
             (case Event_findByPk d (sub_eventId s) of
                None \<Rightarrow> Inl TypeError
              | Some ev \<Rightarrow>
                  (case checkCriteria (judgingCriteria ev) (criteriaScores e) of
                     Inl err \<Rightarrow> Inl err
                   | Inr u \<Rightarrow>
                       (let e1 = (if falsy (score e)
                                  then e\<lparr>score := Some (sumCriteriaScores (criteriaScores e))\<rparr>
                                  else e);
                            e2 = e1\<lparr>eval_status := ESubmitted\<rparr>
                        in Evaluation_save d e2)))))"

section \<open>Submission controller\<close>

subsection \<open>createSubmission\<close>

record create_request =
  req_eventId :: uuid
  req_teamId :: uuid
  req_title :: "string option"
  req_description :: "string option"
  req_githubUrl :: "string option"
  req_videoUrl :: "string option"
  req_submissionNote :: "string option"
  req_isPublic :: "bool option"

definition closed_error :: http_error where
  "closed_error = HttpError 400 ''Event not found or submissions are closed''"

definition conflict_error :: http_error where
  "conflict_error = HttpError 400 ''Your team has already submitted for this event''"

definition create_failed :: http_error where
  "create_failed = HttpError 500 ''Failed to create submission''"

text \<open>
  The handler checks the event and its submission window, then looks the team up with
  \<^verbatim>\<open>Team.findByPk(teamId, { include: [{ model: TeamMember, where: ..., required: true }] })\<close>.
  The Team model declares its association to TeamMember under the alias \<^verbatim>\<open>members\<close>, and
  the include names no alias, so the ORM throws on every call; the \<^verbatim>\<open>catch\<close> of the
  handler answers 500.  The lines after the lookup (the membership answer, the check for
  an existing submission with its answer \<open>conflict_error\<close>, the upload and
  \<^verbatim>\<open>Submission.create\<close>) are never reached.
\<close>

definition createSubmission ::
  "env \<Rightarrow> db \<Rightarrow> user \<Rightarrow> create_request \<Rightarrow> db \<times> (http_error + nat \<times> submission)" where
  "createSubmission en d usr req =
     (case Event_findByPk d (req_eventId req) of
        None \<Rightarrow> (d, Inl closed_error)
      | Some ev \<Rightarrow>
          if \<not> isSubmissionOpen (now en) ev then (d, Inl closed_error)
          else (d, Inl create_failed))"

subsection \<open>submitEvaluation\<close>

record evaluation_request =
  er_score :: "real option"
  er_feedback :: "string option"
  er_criteria :: "(string \<times> json) list option"

definition not_found_error :: http_error where
  "not_found_error = HttpError 404 ''Submission not found''"

definition evaluation_failed :: http_error where
  "evaluation_failed = HttpError 500 ''Failed to submit evaluation''"

text \<open>
  The handler loads the submission with its event and answers 404 when there is none.
  It then reads \<^verbatim>\<open>submission.event.organizerId\<close>, which throws when the event is gone, and
  \<^verbatim>\<open>req.user.roles.includes('admin')\<close>, which throws for every caller, \<^verbatim>\<open>roles\<close> being
  undefined on a User; the \<^verbatim>\<open>catch\<close> answers 500.  The lines after it (the permission
  and judging-window answers, \<^verbatim>\<open>Evaluation.upsert\<close> and the recalculation of the
  scores) are never reached.
\<close>

definition submitEvaluation ::
  "db \<Rightarrow> user \<Rightarrow> uuid \<Rightarrow> evaluation_request \<Rightarrow> db \<times> (http_error + nat \<times> evaluation)" where
  "submitEvaluation d usr i body =
     (case Submission_findByPk d i of
        None \<Rightarrow> (d, Inl not_found_error)
      | Some s \<Rightarrow>
          (case Event_findByPk d (sub_eventId s) of
             None \<Rightarrow> (d, Inl evaluation_failed)
           | Some ev \<Rightarrow> (d, Inl evaluation_failed)))"

subsection \<open>getLeaderboard\<close>

text \<open>
  The request: the event, the query parameters as the query string gives them, and
  \<^verbatim>\<open>req.user\<close>, which is undefined on the route of the leaderboard, mounted before the
  \<^verbatim>\<open>authenticate\<close> middleware.
\<close>

record leaderboard_request =
  lb_eventId :: uuid
  lb_limit :: "string option"
  lb_offset :: "string option"
  lb_user :: "user option"

text \<open>A row of the page the handler is written to answer with, and the page.\<close>

record leaderboard_entry =
  entry_id :: uuid
  entry_title :: string
  evaluationCount :: nat
  entry_averageScore :: "number option"
  entry_rank :: nat

record leaderboard_response =
  lb_submissions :: "leaderboard_entry list"
  lb_total :: nat

definition event_not_found :: http_error where
  "event_not_found = HttpError 404 ''Event not found''"

definition leaderboard_forbidden :: http_error where
  "leaderboard_forbidden = HttpError 403 ''Leaderboard is not public for this event''"

definition leaderboard_failed :: http_error where
  "leaderboard_failed = HttpError 500 ''Failed to fetch leaderboard''"

text \<open>
  \<^verbatim>\<open>!event.isLeaderboardPublic && !req.user?.roles?.includes('admin') &&
  event.organizerId !== req.user?.id\<close>.  The Event model declares no attribute
  \<^verbatim>\<open>isLeaderboardPublic\<close> and a User has no \<^verbatim>\<open>roles\<close>, so the first two conjuncts hold
  for every event and caller; the third holds unless the caller is the organizer.
\<close>

definition not_public :: "event \<Rightarrow> user option \<Rightarrow> bool" where
  "not_public ev usr = (case usr of None \<Rightarrow> True | Some u \<Rightarrow> organizerId ev \<noteq> user_id u)"

text \<open>
  After the two checks the handler builds the query with \<^verbatim>\<open>sequelize.fn\<close> and
  \<^verbatim>\<open>sequelize.literal\<close>.  The controller imports no \<^verbatim>\<open>sequelize\<close>, so evaluating the
  arguments of \<^verbatim>\<open>Submission.findAll\<close> throws a \<^verbatim>\<open>ReferenceError\<close> and the \<^verbatim>\<open>catch\<close>
  answers 500.  The query, the ranks and the page are never reached.
\<close>

definition getLeaderboard :: "db \<Rightarrow> leaderboard_request \<Rightarrow> http_error + leaderboard_response" where
  "getLeaderboard d req =
     (case Event_findByPk d (lb_eventId req) of
        None \<Rightarrow> Inl event_not_found
      | Some ev \<Rightarrow>
          if not_public ev (lb_user req) then Inl leaderboard_forbidden
          else Inl leaderboard_failed)"

section \<open>Example stores\<close>

text \<open>Concrete rows and stores on which the properties below are evaluated.\<close>

definition mk_eval :: "uuid \<Rightarrow> uuid \<Rightarrow> uuid \<Rightarrow> int \<Rightarrow> real \<Rightarrow> time option \<Rightarrow> evaluation" where
  "mk_eval i s j r x del =
     \<lparr> eval_id = i, submissionId = s, judgeId = j, round = r, score = Some (Num x),
       criteriaScores = [], feedback = None, eval_status = ESubmitted, eval_deletedAt = del \<rparr>"

definition mk_sub :: "uuid \<Rightarrow> uuid \<Rightarrow> uuid \<Rightarrow> submission_status \<Rightarrow> submission" where
  "mk_sub i e t st =
     \<lparr> sub_id = i, sub_eventId = e, sub_teamId = t, submittedById = ''u1'',
       title = ''Project'', description = ''A project'', githubUrl = None, videoUrl = None,
       fileUrl = None, fileType = None, fileSize = None, submissionNote = None,
       isPublic = False, sub_status = st, averageScore = None, totalEvaluations = 0,
       sub_deletedAt = None \<rparr>"

definition mk_event :: "uuid \<Rightarrow> time option \<Rightarrow> criterion list \<Rightarrow> event" where
  "mk_event i deadline crit =
     \<lparr> event_id = i, organizerId = ''org'', startDate = 100, endDate = 200,
       submissionDeadline = deadline, judgingCriteria = crit, event_deletedAt = None \<rparr>"

definition mk_env :: "time \<Rightarrow> uuid \<Rightarrow> env" where
  "mk_env t i = \<lparr> now = t, freshId = i, isUrl = (\<lambda>u. True) \<rparr>"

definition mk_request :: "uuid \<Rightarrow> uuid \<Rightarrow> create_request" where
  "mk_request e t =
     \<lparr> req_eventId = e, req_teamId = t, req_title = Some ''Project'',
       req_description = Some ''A project'', req_githubUrl = None, req_videoUrl = None,
       req_submissionNote = None, req_isPublic = None \<rparr>"

text \<open>
  Submission S1 has evaluations by three judges in two rounds, one of them soft-deleted;
  S2 has one evaluation.
\<close>

definition scores_db :: db where
  "scores_db =
     \<lparr> events = [],
       submissions = [mk_sub ''S1'' ''E1'' ''T1'' Submitted, mk_sub ''S2'' ''E1'' ''T2'' Submitted],
       evaluations =
         [mk_eval ''v1'' ''S1'' ''j1'' 1 80 None,
          mk_eval ''v2'' ''S1'' ''j2'' 1 90 None,
          mk_eval ''v3'' ''S2'' ''j1'' 1 10 None,
          mk_eval ''v4'' ''S1'' ''j1'' 2 100 None,
          mk_eval ''v5'' ''S1'' ''j3'' 1 20 (Some 5)] \<rparr>"

text \<open>Two events, E1 with a deadline at 180 and E2 with none, and given submissions.\<close>

definition teams_db :: "submission list \<Rightarrow> db" where
  "teams_db subs =
     \<lparr> events = [mk_event ''E1'' (Some 180) [], mk_event ''E2'' None []],
       submissions = subs, evaluations = [] \<rparr>"

text \<open>
  An event with two judging criteria, one submission for it, and a draft evaluation of
  that submission with a given score and criteria scores.
\<close>

definition criteria_event :: event where
  "criteria_event =
     mk_event ''E1'' (Some 180)
       [\<lparr> crit_id = ''c1'', crit_name = Some ''Innovation'', maxScore = 10 \<rparr>,
        \<lparr> crit_id = ''c2'', crit_name = Some ''Design'', maxScore = 5 \<rparr>]"

definition criteria_db :: db where
  "criteria_db =
     \<lparr> events = [criteria_event],
       submissions = [mk_sub ''S1'' ''E1'' ''T1'' Submitted], evaluations = [] \<rparr>"

definition draft_eval :: "number option \<Rightarrow> (string \<times> json) list \<Rightarrow> evaluation" where
  "draft_eval sc cs =
     \<lparr> eval_id = ''v1'', submissionId = ''S1'', judgeId = ''j1'', round = 1, score = sc,
       criteriaScores = cs, feedback = None, eval_status = EDraft, eval_deletedAt = None \<rparr>"

text \<open>
  An event whose one criterion has the id \<^verbatim>\<open>c1\<close>, the maximum 10 and no name, with a
  submission for it.
\<close>

definition unnamed_criterion_db :: db where
  "unnamed_criterion_db =
     \<lparr> events = [mk_event ''E1'' (Some 180)
                    [\<lparr> crit_id = ''c1'', crit_name = None, maxScore = 10 \<rparr>]],
       submissions = [mk_sub ''S1'' ''E1'' ''T1'' Submitted], evaluations = [] \<rparr>"


text \<open>
  The leaderboard of event E1: A with two evaluations of average 90, B with five of
  average 90, C with none, D with one of 75; X is a draft of the same event and Y a
  submission of another event.
\<close>

definition leaderboard_db :: db where
  "leaderboard_db =
     \<lparr> events = [mk_event ''E1'' (Some 180) [], mk_event ''E2'' None []],
       submissions =
         [mk_sub ''A'' ''E1'' ''T1'' Submitted, mk_sub ''B'' ''E1'' ''T2'' Submitted,
          mk_sub ''C'' ''E1'' ''T3'' Submitted, mk_sub ''D'' ''E1'' ''T4'' Submitted,
          mk_sub ''X'' ''E1'' ''T5'' Draft, mk_sub ''Y'' ''E2'' ''T6'' Submitted],
       evaluations =
         [mk_eval ''a1'' ''A'' ''j1'' 1 85 None, mk_eval ''a2'' ''A'' ''j2'' 1 95 None,
          mk_eval ''b1'' ''B'' ''j1'' 1 80 None, mk_eval ''b2'' ''B'' ''j2'' 1 100 None,
          mk_eval ''b3'' ''B'' ''j3'' 1 90 None, mk_eval ''b4'' ''B'' ''j4'' 1 90 None,
          mk_eval ''b5'' ''B'' ''j5'' 1 90 None,
          mk_eval ''d1'' ''D'' ''j1'' 1 75 None] \<rparr>"

definition leaderboard_request_of ::
  "string option \<Rightarrow> string option \<Rightarrow> user option \<Rightarrow> leaderboard_request" where
  "leaderboard_request_of l off usr =
     \<lparr> lb_eventId = ''E1'', lb_limit = l, lb_offset = off, lb_user = usr \<rparr>"

definition evaluation_body :: "real \<Rightarrow> string \<Rightarrow> (string \<times> json) list \<Rightarrow> evaluation_request" where
  "evaluation_body x f cs = \<lparr> er_score = Some x, er_feedback = Some f, er_criteria = Some cs \<rparr>"

section \<open>Properties\<close>

subsection \<open>Auxiliary facts\<close>

lemmas parse_defs = parseFloat_string_def split_sign_def is_space_def is_digit_def
  digits_val_def digit_val_def parse_exponent_def scale10_def

lemmas submit_defs = submit_def Submission_findByPk_def Event_findByPk_def
  sumCriteriaScores_def Evaluation_save_def Evaluation_validate_def
  beforeSave_def score_changed_def violates_unique_def write_evaluation_def
  calculateScores_def getEvaluations_def save_scores_def get_property_def
  object_prototype_keys_def required_message_def invalid_message_def quoted_name_def

lemmas criteria_db_defs = criteria_db_def criteria_event_def draft_eval_def
  unnamed_criterion_db_def mk_event_def mk_sub_def


lemmas teams_db_defs = teams_db_def mk_event_def mk_env_def mk_request_def mk_sub_def

lemma score_or_zero_Num: "score_or_zero (Some (Num x)) = Num x"
  by (simp add: score_or_zero_def)

lemma foldl_score_sum:
  "map score evs = map (\<lambda>x. Some (Num x)) xs \<Longrightarrow>
   foldl (\<lambda>sum evalItem. add_num sum (score_or_zero (score evalItem))) (Num a) evs
     = Num (a + sum_list xs)"
proof (induction evs arbitrary: a xs)
  case Nil
  then show ?case by simp
next
  case (Cons ev evs)
  then obtain x xs' where xs: "xs = x # xs'" "score ev = Some (Num x)"
      "map score evs = map (\<lambda>x. Some (Num x)) xs'"
    by (cases xs) auto
  from Cons.IH [OF xs(3), of "a + x"] xs(1,2) show ?case
    by (simp add: score_or_zero_Num add.assoc)
qed

lemma add_num_Num:
  "add_num a b = Num z \<longleftrightarrow> (\<exists>x y. a = Num x \<and> b = Num y \<and> z = x + y)"
  by (cases a; cases b) auto

lemma foldl_parse_Num:
  "map parseFloat vs = map Num xs \<Longrightarrow>
   foldl (\<lambda>sum v. add_num sum (parseFloat v)) (Num a) vs = Num (a + sum_list xs)"
proof (induction vs arbitrary: a xs)
  case Nil
  then show ?case by simp
next
  case (Cons v vs)
  then obtain x xs' where xs: "xs = x # xs'" "parseFloat v = Num x"
      "map parseFloat vs = map Num xs'"
    by (cases xs) auto
  from Cons.IH [OF xs(3), of "a + x"] xs(1,2) show ?case
    by (simp add: add.assoc)
qed

lemma foldl_parse_finite:
  "foldl (\<lambda>sum v. add_num sum (parseFloat v)) a vs = Num t \<Longrightarrow>
   \<forall>v \<in> set vs. \<exists>x. parseFloat v = Num x"
proof (induction vs arbitrary: a)
  case Nil
  then show ?case by simp
next
  case (Cons v vs)
  from Cons.prems
  have step: "foldl (\<lambda>sum v. add_num sum (parseFloat v)) (add_num a (parseFloat v)) vs = Num t"
    by simp
  from Cons.IH [OF step] have rest: "\<forall>v \<in> set vs. \<exists>x. parseFloat v = Num x" .
  have "\<exists>z. add_num a (parseFloat v) = Num z"
  proof (cases vs)
    case Nil
    with step show ?thesis by simp
  next
    case (Cons w ws)
    show ?thesis
    proof (rule ccontr)
      assume n: "\<nexists>z. add_num a (parseFloat v) = Num z"
      have absorb: "\<And>b us. (\<nexists>z. b = Num z) \<Longrightarrow>
                      \<nexists>z. foldl (\<lambda>sum v. add_num sum (parseFloat v)) b us = Num z"
      proof -
        fix b us show "(\<nexists>z. b = Num z) \<Longrightarrow>
                      \<nexists>z. foldl (\<lambda>sum v. add_num sum (parseFloat v)) b us = Num z"
        proof (induction us arbitrary: b)
          case Nil
          then show ?case by simp
        next
          case (Cons u us)
          from Cons.prems have "\<nexists>z. add_num b (parseFloat u) = Num z"
            by (auto simp: add_num_Num)
          from Cons.IH [OF this] show ?case by simp
        qed
      qed
      from absorb [OF n] step show False by blast
    qed
  qed
  then have "\<exists>x. parseFloat v = Num x" by (auto simp: add_num_Num)
  with rest show ?case by simp
qed

lemma score_valid_not_finite: "score_valid (Some n) \<Longrightarrow> (\<forall>x. n \<noteq> Num x) \<Longrightarrow> n = NaN"
  by (cases n) auto

lemma write_evaluation_member: "e \<in> set (evaluations (write_evaluation d e))"
  by (auto simp: write_evaluation_def)

lemma write_evaluation_row:
  "r \<in> set (evaluations (write_evaluation d e)) \<Longrightarrow> eval_id r = eval_id e \<Longrightarrow> r = e"
  by (auto simp: write_evaluation_def split: if_splits)

lemma Evaluation_save_Inr:
  "Evaluation_save d e = Inr (d', e') \<Longrightarrow>
   e' = e \<and> Evaluation_validate e \<and> d' = write_evaluation (beforeSave d e) e"
  by (auto simp: Evaluation_save_def Let_def split: if_splits)

lemma Evaluation_save_errors:
  "Evaluation_save d e = Inl err \<Longrightarrow> err = ValidationError \<or> err = UniqueConstraintError"
  by (auto simp: Evaluation_save_def Let_def split: if_splits)

lemma submit_Inr:
  assumes "submit d e = Inr (d', e')"
  shows "eval_status e \<noteq> ESubmitted
       \<and> e' = (if falsy (score e) then e\<lparr>score := Some (sumCriteriaScores (criteriaScores e))\<rparr>
                else e)
                \<lparr>eval_status := ESubmitted\<rparr>
       \<and> Evaluation_validate e'
       \<and> d' = write_evaluation (beforeSave d e') e'"
  using assms
  by (auto simp: submit_def Let_def split: if_splits option.splits sum.splits
           dest!: Evaluation_save_Inr)

lemma submit_falsy_sum:
  assumes "falsy (score e)"
      and "submit d e = Inr (d', e')"
  shows "(\<forall>xs. map (\<lambda>kv. parseFloat (snd kv)) (criteriaScores e) = map Num xs
            \<longrightarrow> score e' = Some (Num (sum_list xs)))
       \<and> ((\<exists>kv \<in> set (criteriaScores e). \<forall>x. parseFloat (snd kv) \<noteq> Num x)
            \<longrightarrow> score e' = Some NaN)
       \<and> e' \<in> set (evaluations d')
       \<and> (\<forall>r \<in> set (evaluations d'). eval_id r = eval_id e \<longrightarrow> score r = score e')"
proof -
  from submit_Inr [OF assms(2)]
  have e0: "e' = (if falsy (score e)
                  then e\<lparr>score := Some (sumCriteriaScores (criteriaScores e))\<rparr> else e)
                   \<lparr>eval_status := ESubmitted\<rparr>"
    and valid: "Evaluation_validate e'"
    and d': "d' = write_evaluation (beforeSave d e') e'"
    by blast+
  from e0 assms(1)
  have e': "e' = e\<lparr>score := Some (sumCriteriaScores (criteriaScores e)),
                    eval_status := ESubmitted\<rparr>"
    by simp
  then have sc: "score e' = Some (sumCriteriaScores (criteriaScores e))" by simp
  have finite: "\<forall>xs. map (\<lambda>kv. parseFloat (snd kv)) (criteriaScores e) = map Num xs
            \<longrightarrow> score e' = Some (Num (sum_list xs))"
  proof (intro allI impI)
    fix xs assume "map (\<lambda>kv. parseFloat (snd kv)) (criteriaScores e) = map Num xs"
    then have "map parseFloat (map snd (criteriaScores e)) = map Num xs"
      by (simp add: comp_def)
    from foldl_parse_Num [OF this, of 0] sc show "score e' = Some (Num (sum_list xs))"
      by (simp add: sumCriteriaScores_def)
  qed
  have nan: "(\<exists>kv \<in> set (criteriaScores e). \<forall>x. parseFloat (snd kv) \<noteq> Num x)
            \<longrightarrow> score e' = Some NaN"
  proof
    assume "\<exists>kv \<in> set (criteriaScores e). \<forall>x. parseFloat (snd kv) \<noteq> Num x"
    then obtain kv where kv: "kv \<in> set (criteriaScores e)" "\<forall>x. parseFloat (snd kv) \<noteq> Num x"
      by blast
    have "\<forall>t. sumCriteriaScores (criteriaScores e) \<noteq> Num t"
    proof (intro allI notI)
      fix t assume "sumCriteriaScores (criteriaScores e) = Num t"
      then have "\<forall>v \<in> set (map snd (criteriaScores e)). \<exists>x. parseFloat v = Num x"
        unfolding sumCriteriaScores_def by (rule foldl_parse_finite)
      with kv show False by auto
    qed
    moreover from valid sc have "score_valid (Some (sumCriteriaScores (criteriaScores e)))"
      by (simp add: Evaluation_validate_def)
    ultimately have "sumCriteriaScores (criteriaScores e) = NaN"
      by (rule score_valid_not_finite [rotated])
    with sc show "score e' = Some NaN" by simp
  qed
  have mem: "e' \<in> set (evaluations d')" unfolding d' by (rule write_evaluation_member)
  have rows: "\<forall>r \<in> set (evaluations d'). eval_id r = eval_id e \<longrightarrow> score r = score e'"
  proof (intro ballI impI)
    fix r assume "r \<in> set (evaluations d')" "eval_id r = eval_id e"
    then have "r = e'" unfolding d' using e' by (auto dest: write_evaluation_row)
    then show "score r = score e'" by simp
  qed
  from finite nan mem rows show ?thesis by blast
qed

lemma in_range_iff:
  "\<not> out_of_range n m \<longleftrightarrow> (\<exists>x. n = Num x \<and> 0 \<le> x \<and> x \<le> m)"
  by (cases n) auto

lemma checkCriteria_Inr_iff:
  "checkCriteria crit cs = Inr () \<longleftrightarrow>
     (\<forall>c \<in> set crit. \<exists>v x. get_property cs (crit_id c) = Own v \<and> parseFloat v = Num x
          \<and> 0 \<le> x \<and> x \<le> maxScore c)"
  by (induction crit) (auto simp: in_range_iff [symmetric] split: property.splits)

lemma checkCriteria_Inl:
  "checkCriteria crit cs = Inl err \<Longrightarrow>
   \<exists>c \<in> set crit.
      (get_property cs (crit_id c) = Missing \<and> err = Error (required_message c))
    \<or> (get_property cs (crit_id c) \<noteq> Missing
         \<and> (\<forall>v x. get_property cs (crit_id c) = Own v \<longrightarrow> parseFloat v = Num x
                \<longrightarrow> x < 0 \<or> maxScore c < x)
         \<and> err = Error (invalid_message c))"
  by (induction crit) (auto split: property.splits if_splits)



subsection \<open>Score aggregation\<close>

text \<open>
  C1.  After \<open>calculateScores\<close> has run on a submission whose evaluations that are not
  soft-deleted carry the scores \<open>xs\<close> (of every round and every judge: \<open>getEvaluations\<close>
  filters on the submission only), the submission has no average and a count of 0 when
  there is no such evaluation, and otherwise its average is the arithmetic mean of \<open>xs\<close>
  and its count is their number; the stored row of the submission carries the same two
  values.
\<close>

theorem calculateScores_mean:
  assumes "map score (getEvaluations d s) = map (\<lambda>x. Some (Num x)) xs"
      and "calculateScores d s = (d', s')"
  shows "(if xs = [] then averageScore s' = None \<and> totalEvaluations s' = 0
          else averageScore s' = Some (Num (sum_list xs / real (length xs)))
             \<and> totalEvaluations s' = length xs)
       \<and> length xs = length (getEvaluations d s)
       \<and> (\<forall>r \<in> set (submissions d'). sub_id r = sub_id s \<longrightarrow>
             averageScore r = averageScore s' \<and> totalEvaluations r = totalEvaluations s')"
proof -
  have len: "length xs = length (getEvaluations d s)"
    using assms(1) by (metis length_map)
  have sum: "foldl (\<lambda>sum evalItem. add_num sum (score_or_zero (score evalItem))) (Num 0)
               (getEvaluations d s) = Num (sum_list xs)"
    using foldl_score_sum [OF assms(1), of 0] by simp
  show ?thesis
    using assms(2) len sum
    by (auto simp: calculateScores_def Let_def save_scores_def split: if_splits)
qed

theorem calculateScores_mean_witness:
  "map score (getEvaluations scores_db (mk_sub ''S1'' ''E1'' ''T1'' Submitted))
     = map (\<lambda>x. Some (Num x)) [80, 90, 100]
   \<and> averageScore (snd (calculateScores scores_db (mk_sub ''S1'' ''E1'' ''T1'' Submitted)))
     = Some (Num 90)
   \<and> totalEvaluations (snd (calculateScores scores_db (mk_sub ''S1'' ''E1'' ''T1'' Submitted)))
     = 3"
proof -
  have h: "map score (getEvaluations scores_db (mk_sub ''S1'' ''E1'' ''T1'' Submitted))
             = map (\<lambda>x. Some (Num x)) [80, 90, 100]"
    by (simp add: getEvaluations_def scores_db_def mk_sub_def mk_eval_def)
  show ?thesis
    using h calculateScores_mean [OF h,
        of "fst (calculateScores scores_db (mk_sub ''S1'' ''E1'' ''T1'' Submitted))"
           "snd (calculateScores scores_db (mk_sub ''S1'' ''E1'' ''T1'' Submitted))"]
    by simp
qed

subsection \<open>Submission window\<close>

text \<open>
  C9.  An event whose \<open>submissionDeadline\<close> is null is never open for submissions, at any
  time and so also while the event is ongoing and before its end date; and
  \<open>createSubmission\<close> for such an event answers with the closed-window rejection and
  leaves the store as it was.
\<close>

theorem null_deadline_closes_submissions:
  assumes "Event_findByPk d (req_eventId req) = Some ev"
      and "submissionDeadline ev = None"
  shows "\<not> isSubmissionOpen (now en) ev
         \<and> createSubmission en d usr req = (d, Inl closed_error)"
  using assms by (simp add: isSubmissionOpen_def createSubmission_def)

theorem null_deadline_closes_submissions_witness:
  "Event_findByPk (teams_db []) (req_eventId (mk_request ''E2'' ''T1''))
     = Some (mk_event ''E2'' None [])
   \<and> submissionDeadline (mk_event ''E2'' None []) = None
   \<and> isEventOngoing (now (mk_env 150 ''S9'')) (mk_event ''E2'' None [])
   \<and> \<not> isSubmissionOpen (now (mk_env 150 ''S9'')) (mk_event ''E2'' None [])
   \<and> createSubmission (mk_env 150 ''S9'') (teams_db [])
        \<lparr> user_id = ''u1'', role = ''participant'' \<rparr> (mk_request ''E2'' ''T1'')
     = (teams_db [], Inl closed_error)"
proof -
  have h1: "Event_findByPk (teams_db []) (req_eventId (mk_request ''E2'' ''T1''))
              = Some (mk_event ''E2'' None [])"
    by (simp add: Event_findByPk_def teams_db_def mk_request_def mk_event_def)
  have h2: "submissionDeadline (mk_event ''E2'' None []) = None"
    by (simp add: mk_event_def)
  have h3: "isEventOngoing (now (mk_env 150 ''S9'')) (mk_event ''E2'' None [])"
    by (simp add: isEventOngoing_def mk_env_def mk_event_def)
  show ?thesis
    using h1 h2 h3
      null_deadline_closes_submissions [OF h1 h2, of "mk_env 150 ''S9''"
        "\<lparr> user_id = ''u1'', role = ''participant'' \<rparr>"]
    by simp
qed

subsection \<open>Submitting an evaluation\<close>

text \<open>
  C5, as amended.  For an evaluation that is not yet in status \<^verbatim>\<open>submitted\<close> and whose
  submission and event are found: when every criterion of the event has an own entry in
  \<open>criteriaScores\<close> whose value parses to a number between 0 and the criterion's
  \<open>maxScore\<close>, the check of the criteria passes and \<open>submit\<close> throws no plain
  \<^verbatim>\<open>Error\<close>.  Otherwise \<open>submit\<close> throws a plain \<^verbatim>\<open>Error\<close> whose message carries the
  \<^verbatim>\<open>name\<close> of an offending criterion: \<^verbatim>\<open>Score for criterion "<name>" is required\<close> when
  the criterion's id is no property of \<open>criteriaScores\<close>, own or inherited, and
  \<^verbatim>\<open>Invalid score for criterion "<name>"\<close> when it is one and its value is not a number
  in range.
\<close>

theorem criteria_validation:
  assumes "eval_status e \<noteq> ESubmitted"
      and "Submission_findByPk d (submissionId e) = Some s"
      and "Event_findByPk d (sub_eventId s) = Some ev"
  shows "if (\<forall>c \<in> set (judgingCriteria ev).
               \<exists>v x. get_property (criteriaScores e) (crit_id c) = Own v
                   \<and> parseFloat v = Num x \<and> 0 \<le> x \<and> x \<le> maxScore c)
         then checkCriteria (judgingCriteria ev) (criteriaScores e) = Inr ()
            \<and> (\<forall>m. submit d e \<noteq> Inl (Error m))
         else (\<exists>c \<in> set (judgingCriteria ev).
                 (get_property (criteriaScores e) (crit_id c) = Missing
                    \<and> submit d e = Inl (Error (required_message c)))
               \<or> (get_property (criteriaScores e) (crit_id c) \<noteq> Missing
                    \<and> (\<forall>v x. get_property (criteriaScores e) (crit_id c) = Own v
                           \<longrightarrow> parseFloat v = Num x \<longrightarrow> x < 0 \<or> maxScore c < x)
                    \<and> submit d e = Inl (Error (invalid_message c))))"
proof (cases "checkCriteria (judgingCriteria ev) (criteriaScores e)")
  case (Inl err)
  then have not_ok: "\<not> (\<forall>c \<in> set (judgingCriteria ev).
               \<exists>v x. get_property (criteriaScores e) (crit_id c) = Own v
                   \<and> parseFloat v = Num x \<and> 0 \<le> x \<and> x \<le> maxScore c)"
    using checkCriteria_Inr_iff [of "judgingCriteria ev" "criteriaScores e"] by simp
  have sub: "submit d e = Inl err"
    using assms Inl by (simp add: submit_def)
  from checkCriteria_Inl [OF Inl] obtain c where c: "c \<in> set (judgingCriteria ev)"
    "(get_property (criteriaScores e) (crit_id c) = Missing \<and> err = Error (required_message c))
    \<or> (get_property (criteriaScores e) (crit_id c) \<noteq> Missing
         \<and> (\<forall>v x. get_property (criteriaScores e) (crit_id c) = Own v \<longrightarrow> parseFloat v = Num x
                \<longrightarrow> x < 0 \<or> maxScore c < x)
         \<and> err = Error (invalid_message c))"
    by blast
  with sub have offending: "\<exists>c \<in> set (judgingCriteria ev).
                 (get_property (criteriaScores e) (crit_id c) = Missing
                    \<and> submit d e = Inl (Error (required_message c)))
               \<or> (get_property (criteriaScores e) (crit_id c) \<noteq> Missing
                    \<and> (\<forall>v x. get_property (criteriaScores e) (crit_id c) = Own v
                           \<longrightarrow> parseFloat v = Num x \<longrightarrow> x < 0 \<or> maxScore c < x)
                    \<and> submit d e = Inl (Error (invalid_message c)))"
    by blast
  show ?thesis unfolding if_not_P [OF not_ok] by (rule offending)
next
  case (Inr u)
  then have ok: "\<forall>c \<in> set (judgingCriteria ev).
               \<exists>v x. get_property (criteriaScores e) (crit_id c) = Own v
                   \<and> parseFloat v = Num x \<and> 0 \<le> x \<and> x \<le> maxScore c"
    using checkCriteria_Inr_iff [of "judgingCriteria ev" "criteriaScores e"] by simp
  have "\<exists>e2. submit d e = Evaluation_save d e2"
    using assms Inr by (cases "falsy (score e)") (auto simp: submit_def Let_def)
  then obtain e2 where e2: "submit d e = Evaluation_save d e2" by blast
  have "\<forall>m. submit d e \<noteq> Inl (Error m)"
  proof (intro allI notI)
    fix m assume "submit d e = Inl (Error m)"
    with e2 have "Evaluation_save d e2 = Inl (Error m)" by simp
    from Evaluation_save_errors [OF this] show False by simp
  qed
  with ok Inr show ?thesis by simp
qed

theorem criteria_validation_witness:
  "eval_status (draft_eval (Some (Num 50)) [(''c1'', JNumber 10), (''c2'', JNumber 5)])
     \<noteq> ESubmitted
   \<and> Submission_findByPk criteria_db
        (submissionId (draft_eval (Some (Num 50)) [(''c1'', JNumber 10), (''c2'', JNumber 5)]))
       = Some (mk_sub ''S1'' ''E1'' ''T1'' Submitted)
   \<and> Event_findByPk criteria_db (sub_eventId (mk_sub ''S1'' ''E1'' ''T1'' Submitted))
       = Some criteria_event
   \<and> checkCriteria (judgingCriteria criteria_event) [(''c1'', JNumber 10), (''c2'', JNumber 5)]
       = Inr ()
   \<and> submit criteria_db (draft_eval (Some (Num 50)) [(''c1'', JNumber 11), (''c2'', JNumber 4)])
       = Inl (Error (''Invalid score for criterion '' @ [CHR 0x22] @ ''Innovation'' @ [CHR 0x22]))
   \<and> submit criteria_db (draft_eval (Some (Num 50)) [(''c1'', JNumber 10)])
       = Inl (Error (''Score for criterion '' @ [CHR 0x22] @ ''Design'' @ [CHR 0x22]
                       @ '' is required''))"
proof -
  have h1: "eval_status (draft_eval (Some (Num 50)) [(''c1'', JNumber 10), (''c2'', JNumber 5)])
              \<noteq> ESubmitted"
    by (simp add: draft_eval_def)
  have h2: "Submission_findByPk criteria_db
              (submissionId (draft_eval (Some (Num 50)) [(''c1'', JNumber 10), (''c2'', JNumber 5)]))
             = Some (mk_sub ''S1'' ''E1'' ''T1'' Submitted)"
    by (simp add: Submission_findByPk_def criteria_db_defs)
  have h3: "Event_findByPk criteria_db (sub_eventId (mk_sub ''S1'' ''E1'' ''T1'' Submitted))
             = Some criteria_event"
    by (simp add: Event_findByPk_def criteria_db_defs)
  have ok: "checkCriteria (judgingCriteria criteria_event)
              [(''c1'', JNumber 10), (''c2'', JNumber 5)] = Inr ()"
    using criteria_validation [OF h1 h2 h3]
    by (simp add: criteria_db_defs get_property_def)
  have bad: "submit criteria_db
               (draft_eval (Some (Num 50)) [(''c1'', JNumber 11), (''c2'', JNumber 4)])
               = Inl (Error (''Invalid score for criterion '' @ [CHR 0x22] @ ''Innovation''
                               @ [CHR 0x22]))"
    by (simp add: submit_defs criteria_db_defs)
  have missing: "submit criteria_db (draft_eval (Some (Num 50)) [(''c1'', JNumber 10)])
               = Inl (Error (''Score for criterion '' @ [CHR 0x22] @ ''Design'' @ [CHR 0x22]
                               @ '' is required''))"
    by (simp add: submit_defs criteria_db_defs)
  from h1 h2 h3 ok bad missing show ?thesis by blast
qed

text \<open>
  The claim as stated fails on the criterion \<^verbatim>\<open>{id: "c1", maxScore: 10}\<close> with the score
  11: what is thrown is a plain \<^verbatim>\<open>Error\<close>, not a \<^verbatim>\<open>ValidationError\<close>, and its message
  \<^verbatim>\<open>Invalid score for criterion "undefined"\<close> carries the criterion's \<^verbatim>\<open>name\<close>, which
  is absent here, not its id.
\<close>

theorem criteria_error_counterexample:
  "submit unnamed_criterion_db (draft_eval (Some (Num 50)) [(''c1'', JNumber 11)])
     = Inl (Error (''Invalid score for criterion '' @ [CHR 0x22] @ ''undefined'' @ [CHR 0x22]))
   \<and> submit unnamed_criterion_db (draft_eval (Some (Num 50)) [(''c1'', JNumber 11)])
     \<noteq> Inl ValidationError"
  by (simp add: submit_defs criteria_db_defs)

text \<open>
  C6.  When an evaluation without a score is submitted and the submission succeeds, the
  score of the returned and of the stored evaluation is the plain sum of the values of
  \<open>criteriaScores\<close>, with no division by their count and no rescaling: the sum of the
  numbers \<open>xs\<close> when the values parse to these, and \<^verbatim>\<open>NaN\<close>, which is what the addition
  of doubles then gives, when some value parses to no finite number.  In the witness the
  values 3 and 4 give the score 7.
\<close>

theorem submit_score_is_sum:
  assumes "score e = None"
      and "submit d e = Inr (d', e')"
  shows "(\<forall>xs. map (\<lambda>kv. parseFloat (snd kv)) (criteriaScores e) = map Num xs
            \<longrightarrow> score e' = Some (Num (sum_list xs)))
       \<and> ((\<exists>kv \<in> set (criteriaScores e). \<forall>x. parseFloat (snd kv) \<noteq> Num x)
            \<longrightarrow> score e' = Some NaN)
       \<and> e' \<in> set (evaluations d')
       \<and> (\<forall>r \<in> set (evaluations d'). eval_id r = eval_id e \<longrightarrow> score r = score e')"
proof -
  from assms(1) have "falsy (score e)" by simp
  from submit_falsy_sum [OF this assms(2)] show ?thesis .
qed

theorem submit_score_is_sum_witness:
  "score (draft_eval None [(''c1'', JNumber 3), (''c2'', JString ''4'')]) = None
   \<and> submit criteria_db (draft_eval None [(''c1'', JNumber 3), (''c2'', JString ''4'')])
       = Inr (criteria_db
                \<lparr>evaluations :=
                   [(draft_eval (Some (Num 7)) [(''c1'', JNumber 3), (''c2'', JString ''4'')])
                      \<lparr>eval_status := ESubmitted\<rparr>]\<rparr>,
              (draft_eval (Some (Num 7)) [(''c1'', JNumber 3), (''c2'', JString ''4'')])
                \<lparr>eval_status := ESubmitted\<rparr>)
   \<and> map (\<lambda>kv. parseFloat (snd kv)) [(''c1'', JNumber 3), (''c2'', JString ''4'')]
       = map Num [3, 4]
   \<and> score ((draft_eval (Some (Num 7)) [(''c1'', JNumber 3), (''c2'', JString ''4'')])
               \<lparr>eval_status := ESubmitted\<rparr>) = Some (Num (sum_list [3, 4]))"
proof -
  have h1: "score (draft_eval None [(''c1'', JNumber 3), (''c2'', JString ''4'')]) = None"
    by (simp add: draft_eval_def)
  have h2: "submit criteria_db (draft_eval None [(''c1'', JNumber 3), (''c2'', JString ''4'')])
       = Inr (criteria_db
                \<lparr>evaluations :=
                   [(draft_eval (Some (Num 7)) [(''c1'', JNumber 3), (''c2'', JString ''4'')])
                      \<lparr>eval_status := ESubmitted\<rparr>]\<rparr>,
              (draft_eval (Some (Num 7)) [(''c1'', JNumber 3), (''c2'', JString ''4'')])
                \<lparr>eval_status := ESubmitted\<rparr>)"
    by (simp add: submit_defs criteria_db_defs parse_defs Let_def)
  have h3: "map (\<lambda>kv. parseFloat (snd kv)) [(''c1'', JNumber 3), (''c2'', JString ''4'')]
       = map Num [3, 4]"
    by (simp add: parse_defs Let_def)
  from submit_score_is_sum [OF h1 h2] h3
  have "score ((draft_eval (Some (Num 7)) [(''c1'', JNumber 3), (''c2'', JString ''4'')])
               \<lparr>eval_status := ESubmitted\<rparr>) = Some (Num (sum_list [3, 4]))"
    by (simp add: draft_eval_def)
  with h1 h2 h3 show ?thesis by blast
qed

text \<open>
  C10.  When \<open>submit\<close> runs on an evaluation whose score is falsy, that is missing, the
  number 0 or \<^verbatim>\<open>NaN\<close>, and succeeds, the score of the returned and of the stored
  evaluation is the sum of the values of \<open>criteriaScores\<close> (the sum of the numbers \<open>xs\<close>
  they parse to, or \<^verbatim>\<open>NaN\<close> when one of them parses to no finite number): a score of 0
  that was given on purpose is replaced, as the witness shows with the score 0 becoming 7.
\<close>

theorem submit_overwrites_falsy_score:
  assumes "score e = None \<or> score e = Some (Num 0) \<or> score e = Some NaN"
      and "submit d e = Inr (d', e')"
  shows "(\<forall>xs. map (\<lambda>kv. parseFloat (snd kv)) (criteriaScores e) = map Num xs
            \<longrightarrow> score e' = Some (Num (sum_list xs)))
       \<and> ((\<exists>kv \<in> set (criteriaScores e). \<forall>x. parseFloat (snd kv) \<noteq> Num x)
            \<longrightarrow> score e' = Some NaN)
       \<and> e' \<in> set (evaluations d')
       \<and> (\<forall>r \<in> set (evaluations d'). eval_id r = eval_id e \<longrightarrow> score r = score e')"
proof -
  from assms(1) have "falsy (score e)" by auto
  from submit_falsy_sum [OF this assms(2)] show ?thesis .
qed

theorem submit_overwrites_falsy_score_witness:
  "score (draft_eval (Some (Num 0)) [(''c1'', JNumber 3), (''c2'', JString ''4'')])
     = Some (Num 0)
   \<and> submit criteria_db
        (draft_eval (Some (Num 0)) [(''c1'', JNumber 3), (''c2'', JString ''4'')])
       = Inr (criteria_db
                \<lparr>evaluations :=
                   [(draft_eval (Some (Num 7)) [(''c1'', JNumber 3), (''c2'', JString ''4'')])
                      \<lparr>eval_status := ESubmitted\<rparr>]\<rparr>,
              (draft_eval (Some (Num 7)) [(''c1'', JNumber 3), (''c2'', JString ''4'')])
                \<lparr>eval_status := ESubmitted\<rparr>)
   \<and> map (\<lambda>kv. parseFloat (snd kv)) [(''c1'', JNumber 3), (''c2'', JString ''4'')]
       = map Num [3, 4]
   \<and> score ((draft_eval (Some (Num 7)) [(''c1'', JNumber 3), (''c2'', JString ''4'')])
               \<lparr>eval_status := ESubmitted\<rparr>) = Some (Num (sum_list [3, 4]))"
proof -
  have h1: "score (draft_eval (Some (Num 0)) [(''c1'', JNumber 3), (''c2'', JString ''4'')])
              = Some (Num 0)"
    by (simp add: draft_eval_def)
  have h2: "submit criteria_db
        (draft_eval (Some (Num 0)) [(''c1'', JNumber 3), (''c2'', JString ''4'')])
       = Inr (criteria_db
                \<lparr>evaluations :=
                   [(draft_eval (Some (Num 7)) [(''c1'', JNumber 3), (''c2'', JString ''4'')])
                      \<lparr>eval_status := ESubmitted\<rparr>]\<rparr>,
              (draft_eval (Some (Num 7)) [(''c1'', JNumber 3), (''c2'', JString ''4'')])
                \<lparr>eval_status := ESubmitted\<rparr>)"
    by (simp add: submit_defs criteria_db_defs parse_defs Let_def)
  have h3: "map (\<lambda>kv. parseFloat (snd kv)) [(''c1'', JNumber 3), (''c2'', JString ''4'')]
       = map Num [3, 4]"
    by (simp add: parse_defs Let_def)
  from submit_overwrites_falsy_score [OF disjI2 [OF disjI1 [OF h1]] h2] h3
  have "score ((draft_eval (Some (Num 7)) [(''c1'', JNumber 3), (''c2'', JString ''4'')])
               \<lparr>eval_status := ESubmitted\<rparr>) = Some (Num (sum_list [3, 4]))"
    by (simp add: draft_eval_def)
  with h1 h2 h3 show ?thesis by blast
qed

subsection \<open>Creating a submission\<close>




text \<open>
  \<open>createSubmission\<close> never creates a submission: it answers with the closed-window
  rejection or with 500, and leaves the store as it was.
\<close>

lemma createSubmission_never_succeeds:
  "createSubmission en d usr req = (d, Inl closed_error)
   \<or> createSubmission en d usr req = (d, Inl create_failed)"
  by (simp add: createSubmission_def split: option.splits)

text \<open>
  C7.  Team T1 holds a submitted submission for event E1, whose window is open at time
  150, and an accepted member of the team asks to submit again.  The answer is 500,
  \<^verbatim>\<open>Failed to create submission\<close>, not the rejection
  \<^verbatim>\<open>Your team has already submitted for this event\<close>: the lookup of the team throws
  before the handler reaches its check for an existing submission.  No row is created.
\<close>

theorem resubmission_answers_500:
  "createSubmission (mk_env 150 ''S9'') (teams_db [mk_sub ''S1'' ''E1'' ''T1'' Submitted])
      \<lparr> user_id = ''u2'', role = ''participant'' \<rparr> (mk_request ''E1'' ''T1'')
     = (teams_db [mk_sub ''S1'' ''E1'' ''T1'' Submitted], Inl create_failed)
   \<and> create_failed \<noteq> conflict_error"
  by (simp add: createSubmission_def Event_findByPk_def isSubmissionOpen_def teams_db_defs
        create_failed_def conflict_error_def)

subsection \<open>Evaluation upsert\<close>

text \<open>
  \<open>submitEvaluation\<close> never writes: it answers 404 or 500 and leaves the store as it was.
\<close>

lemma submitEvaluation_never_succeeds:
  "submitEvaluation d usr i body = (d, Inl not_found_error)
   \<or> submitEvaluation d usr i body = (d, Inl evaluation_failed)"
  by (simp add: submitEvaluation_def split: option.splits)

text \<open>
  C2.  The organizer of event E1 submits an evaluation of submission S1 with a score,
  feedback and criteria, and then a second one.  Each call is answered with 500,
  \<^verbatim>\<open>Failed to submit evaluation\<close>, and the store holds no evaluation row afterwards: the
  handler throws on \<^verbatim>\<open>req.user.roles\<close> before it reaches \<^verbatim>\<open>Evaluation.upsert\<close>.
\<close>

theorem submitEvaluation_answers_500:
  "submitEvaluation criteria_db \<lparr> user_id = ''org'', role = ''organizer'' \<rparr> ''S1''
       (evaluation_body 9 ''good'' [(''c1'', JNumber 6), (''c2'', JNumber 3)])
     = (criteria_db, Inl evaluation_failed)
   \<and> submitEvaluation criteria_db \<lparr> user_id = ''org'', role = ''organizer'' \<rparr> ''S1''
       (evaluation_body 7 ''fair'' [(''c1'', JNumber 5), (''c2'', JNumber 2)])
     = (criteria_db, Inl evaluation_failed)
   \<and> evaluations criteria_db = []"
  by (simp add: submitEvaluation_def Submission_findByPk_def Event_findByPk_def
        criteria_db_defs)

subsection \<open>Leaderboard\<close>

text \<open>\<open>getLeaderboard\<close> never answers with a page.\<close>

lemma getLeaderboard_never_succeeds:
  "getLeaderboard d req = Inl event_not_found
   \<or> getLeaderboard d req = Inl leaderboard_forbidden
   \<or> getLeaderboard d req = Inl leaderboard_failed"
  by (simp add: getLeaderboard_def split: option.splits)

text \<open>
  C3.  On the store with the submissions A (average 90, 2 evaluations), B (90, 5),
  C (none, 0) and D (75, 1) of event E1, the leaderboard of E1 is asked for.  A caller
  without a user, as every caller of the route is, is answered with 403,
  \<^verbatim>\<open>Leaderboard is not public for this event\<close>, and the organizer of the event with 500,
  \<^verbatim>\<open>Failed to fetch leaderboard\<close>; no page with the order B, A, D, C is returned.
\<close>

theorem leaderboard_not_served:
  "getLeaderboard leaderboard_db (leaderboard_request_of None None None)
     = Inl leaderboard_forbidden
   \<and> getLeaderboard leaderboard_db
        (leaderboard_request_of None None (Some \<lparr> user_id = ''org'', role = ''organizer'' \<rparr>))
     = Inl leaderboard_failed"
  by (simp add: getLeaderboard_def Event_findByPk_def not_public_def leaderboard_db_def
        leaderboard_request_of_def mk_event_def)

text \<open>
  C4.  On the same store the pages \<^verbatim>\<open>limit=2&offset=0\<close> and \<^verbatim>\<open>limit=2&offset=2\<close> are
  asked for.  Both requests are answered with 403 when the caller has no user and with
  500 when the caller is the organizer; no row and no rank is returned.
\<close>

theorem leaderboard_pages_not_served:
  "getLeaderboard leaderboard_db (leaderboard_request_of (Some ''2'') (Some ''0'') None)
     = Inl leaderboard_forbidden
   \<and> getLeaderboard leaderboard_db (leaderboard_request_of (Some ''2'') (Some ''2'') None)
     = Inl leaderboard_forbidden
   \<and> getLeaderboard leaderboard_db
        (leaderboard_request_of (Some ''2'') (Some ''0'')
           (Some \<lparr> user_id = ''org'', role = ''organizer'' \<rparr>))
     = Inl leaderboard_failed
   \<and> getLeaderboard leaderboard_db
        (leaderboard_request_of (Some ''2'') (Some ''2'')
           (Some \<lparr> user_id = ''org'', role = ''organizer'' \<rparr>))
     = Inl leaderboard_failed"
  by (simp add: getLeaderboard_def Event_findByPk_def not_public_def leaderboard_db_def
        leaderboard_request_of_def mk_event_def)

end
